theory Spec2Isabelle
  imports Complex_Main
begin

section \<open>Data model\<close>

text \<open>
  The auction document of the Mongoose schema \<^verbatim>\<open>auctionSchema\<close>. Prices are JavaScript
  Numbers; the bidding handler only compares and stores them (it never computes with
  them), so a finite Number is modelled by the rational it denotes and the comparison
  \<^verbatim>\<open><=\<close> by the order on \<^typ>\<open>rat\<close>. Dates are milliseconds since the epoch,
  object identifiers are strings. The schema's field \<^verbatim>\<open>image\<close> is \<open>image_url\<close> here.
\<close>

datatype auction_status = Active | Ended | Cancelled

record auction =
  title :: string
  description :: string
  startingPrice :: rat
  currentPrice :: rat
  category :: string
  image_url :: string
  status :: auction_status
  startTime :: int
  endTime :: int
  seller :: string
  highestBidder :: "string option"
  bidCount :: int
  createdAt :: int

text \<open>
  The three fields the handler passes to \<^verbatim>\<open>new Bid({auction, bidder, amount})\<close>; the
  field \<^verbatim>\<open>auction\<close> is \<open>bid_auction\<close> here.
\<close>

record bid =
  bid_auction :: string
  bidder :: string
  amount :: rat

text \<open>
  A connected socket after the authentication middleware: \<^verbatim>\<open>socket.userId\<close> and
  \<^verbatim>\<open>socket.userRole\<close> come from the verified token.
\<close>

record socket =
  socket_id :: nat
  userId :: string
  userRole :: string

text \<open>
  The payload of a \<^verbatim>\<open>place-bid\<close> event, an object \<^verbatim>\<open>{ auctionId, bidAmount }\<close> whose
  amount is a finite Number.
\<close>

record place_bid_data =
  auctionId :: string
  bidAmount :: rat

datatype event =
  Bid_error string
| New_bid bid rat

text \<open>
  \<^verbatim>\<open>socket.emit\<close> addresses one socket; \<^verbatim>\<open>io.to(room).emit\<close> addresses a room.
\<close>

datatype emission =
  Socket_emit nat event
| Room_emit string event

text \<open>
  The server state: the auction collection, the bid collection in insertion order, and
  the members of every Socket.io room.
\<close>

record state =
  auctions :: "string \<rightharpoonup> auction"
  bids :: "bid list"
  rooms :: "string \<Rightarrow> nat set"

text \<open>
  Every awaited store call of the handler may reject (a cast error of the identifier, a
  validation error, an I/O error); the handler's \<^verbatim>\<open>catch\<close> turns the rejection into
  a \<^verbatim>\<open>bid-error\<close> carrying its message. Which calls reject is an input of the model:
  \<open>None\<close> means the call resolves.
\<close>

record store_faults =
  find_auction_err :: "string option"
  bid_save_err :: "string option"
  auction_save_err :: "string option"
  bid_populate_err :: "string option"

definition no_faults :: store_faults where
  "no_faults = \<lparr>find_auction_err = None, bid_save_err = None,
                 auction_save_err = None, bid_populate_err = None\<rparr>"

section \<open>The socket handlers of server.js\<close>

definition room_name :: "string \<Rightarrow> string" where
  "room_name aid = ''auction-'' @ aid"

definition join_auction :: "socket \<Rightarrow> string \<Rightarrow> state \<Rightarrow> state" where
  "join_auction sock aid s =
     s\<lparr>rooms := (rooms s)(room_name aid := insert (socket_id sock) (rooms s (room_name aid)))\<rparr>"

definition bid_error :: "socket \<Rightarrow> string \<Rightarrow> emission" where
  "bid_error sock msg = Socket_emit (socket_id sock) (Bid_error msg)"

definition new_bid_of :: "socket \<Rightarrow> place_bid_data \<Rightarrow> bid" where
  "new_bid_of sock d =
     \<lparr>bid_auction = auctionId d, bidder = userId sock, amount = bidAmount d\<rparr>"

text \<open>
  The \<^verbatim>\<open>place-bid\<close> handler from its \<^verbatim>\<open>try\<close> block on, for a payload that has been
  taken apart, run without interruption. \<open>now\<close> is the value of \<^verbatim>\<open>new Date()\<close> at the
  deadline test. The result is the state after the handler and the events it emitted,
  in order.
\<close>

definition place_bid ::
  "store_faults \<Rightarrow> int \<Rightarrow> socket \<Rightarrow> place_bid_data \<Rightarrow> state \<Rightarrow> state \<times> emission list" where
  "place_bid f now sock d s =
    (case find_auction_err f of
       Some e \<Rightarrow> (s, [bid_error sock e])
     | None \<Rightarrow>
      (case auctions s (auctionId d) of
         None \<Rightarrow> (s, [bid_error sock ''Auction not found''])
       | Some a \<Rightarrow>
          if status a \<noteq> Active then (s, [bid_error sock ''Auction is not active''])
          else if now > endTime a then (s, [bid_error sock ''Auction has ended''])
          else if bidAmount d \<le> currentPrice a
            then (s, [bid_error sock ''Bid must be higher than current price''])
          else
           (case bid_save_err f of
              Some e \<Rightarrow> (s, [bid_error sock e])
            | None \<Rightarrow>
              let s1 = s\<lparr>bids := bids s @ [new_bid_of sock d]\<rparr> in
              (case auction_save_err f of
                 Some e \<Rightarrow> (s1, [bid_error sock e])
               | None \<Rightarrow>
                 let s2 = s1\<lparr>auctions := (auctions s1)(auctionId d \<mapsto>
                            a\<lparr>currentPrice := bidAmount d,
                              highestBidder := Some (userId sock)\<rparr>)\<rparr> in
                 (case bid_populate_err f of
                    Some e \<Rightarrow> (s2, [bid_error sock e])
                  | None \<Rightarrow>
                    (s2, [Room_emit (room_name (auctionId d))
                            (New_bid (new_bid_of sock d) (bidAmount d))]))))))"

text \<open>
  The listener as registered by \<^verbatim>\<open>socket.on('place-bid', ...)\<close>. Its first statement
  takes \<^verbatim>\<open>auctionId\<close> and \<^verbatim>\<open>bidAmount\<close> out of the payload, before the \<^verbatim>\<open>try\<close> block
  begins. When the event comes without a payload (\<^verbatim>\<open>undefined\<close> or \<^verbatim>\<open>null\<close>, here
  \<open>None\<close>) that statement throws outside the \<^verbatim>\<open>catch\<close>: nothing is emitted and
  nothing stored is changed. The listener's promise then rejects unhandled; what the
  runtime does with the process after that is not described here.
\<close>

definition on_place_bid ::
  "store_faults \<Rightarrow> int \<Rightarrow> socket \<Rightarrow> place_bid_data option \<Rightarrow> state \<Rightarrow> state \<times> emission list" where
  "on_place_bid f now sock data s =
     (case data of
        None \<Rightarrow> (s, [])
      | Some d \<Rightarrow> place_bid f now sock d s)"

text \<open>The broadcast of line 102, as an emission.\<close>

definition new_bid_emission :: "socket \<Rightarrow> place_bid_data \<Rightarrow> emission" where
  "new_bid_emission sock d =
     Room_emit (room_name (auctionId d)) (New_bid (new_bid_of sock d) (bidAmount d))"

text \<open>The state a committed bid leaves behind.\<close>

definition committed :: "socket \<Rightarrow> place_bid_data \<Rightarrow> auction \<Rightarrow> state \<Rightarrow> state" where
  "committed sock d a s =
     s\<lparr>bids := bids s @ [new_bid_of sock d],
       auctions := (auctions s)(auctionId d \<mapsto>
          a\<lparr>currentPrice := bidAmount d, highestBidder := Some (userId sock)\<rparr>)\<rparr>"

text \<open>
  What a socket receives from a list of emissions: an event addressed to the socket
  itself, or to a room the socket has joined.
\<close>

fun delivered :: "(string \<Rightarrow> nat set) \<Rightarrow> nat \<Rightarrow> emission \<Rightarrow> bool" where
  "delivered R sid (Socket_emit t e) = (t = sid)"
| "delivered R sid (Room_emit r e) = (sid \<in> R r)"

fun event_of :: "emission \<Rightarrow> event" where
  "event_of (Socket_emit t e) = e"
| "event_of (Room_emit r e) = e"

definition received :: "(string \<Rightarrow> nat set) \<Rightarrow> nat \<Rightarrow> emission list \<Rightarrow> event list" where
  "received R sid ems = map event_of (filter (delivered R sid) ems)"

section \<open>The handler between its await points\<close>

text \<open>
  The handler is an \<^verbatim>\<open>async\<close> function: at every \<^verbatim>\<open>await\<close> it yields to the event
  loop, and another handler may run before it resumes. A task is a handler instance
  between two awaits, holding what the rest of the handler still depends on: the socket,
  the payload and, until the tests are done, the \<^verbatim>\<open>auction\<close> document as it was read.
\<close>

datatype task =
  Start socket place_bid_data
| Found socket place_bid_data "auction option"
| Bid_saved socket place_bid_data
| Auction_saved socket place_bid_data
| Finished

text \<open>
  One resumption of a task, the store calls resolving:
  \<^item> \<open>Start\<close>: \<^verbatim>\<open>await Auction.findById(auctionId)\<close> reads the collection;
  \<^item> \<open>Found\<close>: the four tests on the document that was read, then \<^verbatim>\<open>await bid.save()\<close>;
  \<^item> \<open>Bid_saved\<close>: the two assignments to the document that was read, then
    \<^verbatim>\<open>await auction.save()\<close>, which writes the two assigned paths, currentPrice and
    highestBidder, onto the stored document and leaves its other fields as they are
    stored. When the document is no longer stored the save rejects and the handler's
    \<^verbatim>\<open>catch\<close> answers with the error's message, for which \<open>document_not_found\<close> stands;
    no run of bid handlers gets there (\<open>run_schedule_keeps_documents\<close> below);
  \<^item> \<open>Auction_saved\<close>: the bid is read back and \<^verbatim>\<open>new-bid\<close> goes to the room.
\<close>

definition document_not_found :: string where
  "document_not_found = ''No document found''"

fun step_task :: "int \<Rightarrow> task \<Rightarrow> state \<Rightarrow> task \<times> state \<times> emission list" where
  "step_task now (Start sock d) s = (Found sock d (auctions s (auctionId d)), s, [])"
| "step_task now (Found sock d None) s =
     (Finished, s, [bid_error sock ''Auction not found''])"
| "step_task now (Found sock d (Some a)) s =
     (if status a \<noteq> Active then (Finished, s, [bid_error sock ''Auction is not active''])
      else if now > endTime a then (Finished, s, [bid_error sock ''Auction has ended''])
      else if bidAmount d \<le> currentPrice a
        then (Finished, s, [bid_error sock ''Bid must be higher than current price''])
      else (Bid_saved sock d, s\<lparr>bids := bids s @ [new_bid_of sock d]\<rparr>, []))"
| "step_task now (Bid_saved sock d) s =
     (case auctions s (auctionId d) of
        None \<Rightarrow> (Finished, s, [bid_error sock document_not_found])
      | Some stored \<Rightarrow>
         (Auction_saved sock d,
          s\<lparr>auctions := (auctions s)(auctionId d \<mapsto>
               stored\<lparr>currentPrice := bidAmount d, highestBidder := Some (userId sock)\<rparr>)\<rparr>,
          []))"
| "step_task now (Auction_saved sock d) s =
     (Finished, s,
      [Room_emit (room_name (auctionId d)) (New_bid (new_bid_of sock d) (bidAmount d))])"
| "step_task now Finished s = (Finished, s, [])"

text \<open>
  The server: the state, the handler instances in flight and the events emitted so far.
  A schedule names, for each turn of the event loop, the task that resumes and the
  clock at that moment.
\<close>

record world =
  w_state :: state
  w_tasks :: "task list"
  w_log :: "emission list"

definition resume :: "nat \<Rightarrow> int \<Rightarrow> world \<Rightarrow> world" where
  "resume i now w =
     (if i < length (w_tasks w)
      then (case step_task now (w_tasks w ! i) (w_state w) of
              (t', s', out) \<Rightarrow>
                \<lparr>w_state = s', w_tasks = (w_tasks w)[i := t'], w_log = w_log w @ out\<rparr>)
      else w)"

fun run_schedule :: "(nat \<times> int) list \<Rightarrow> world \<Rightarrow> world" where
  "run_schedule [] w = w"
| "run_schedule ((i, now) # sch) w = run_schedule sch (resume i now w)"

text \<open>
  A task whose document, if it has read one, is still stored; and a world all of whose
  tasks are so.
\<close>

fun document_stored :: "state \<Rightarrow> task \<Rightarrow> bool" where
  "document_stored s (Found sock d (Some a)) = (auctions s (auctionId d) \<noteq> None)"
| "document_stored s (Bid_saved sock d) = (auctions s (auctionId d) \<noteq> None)"
| "document_stored s t = True"

definition documents_stored :: "world \<Rightarrow> bool" where
  "documents_stored w = list_all (document_stored (w_state w)) (w_tasks w)"

text \<open>A single task resumed again and again, nothing else running in between.\<close>

fun run_alone :: "nat \<Rightarrow> int \<Rightarrow> task \<Rightarrow> state \<Rightarrow> emission list \<Rightarrow> state \<times> emission list" where
  "run_alone 0 now t s out = (s, out)"
| "run_alone (Suc n) now t s out =
     (case step_task now t s of (t', s', out') \<Rightarrow> run_alone n now t' s' (out @ out'))"

text \<open>Handlers run one after the other, each to its end before the next starts.\<close>

fun run_bids :: "(store_faults \<times> int \<times> socket \<times> place_bid_data) list \<Rightarrow> state
    \<Rightarrow> state \<times> emission list" where
  "run_bids [] s = (s, [])"
| "run_bids ((f, now, sock, d) # xs) s =
     (case place_bid f now sock d s of
        (s', out) \<Rightarrow> (case run_bids xs s' of (s'', out') \<Rightarrow> (s'', out @ out')))"

text \<open>The prices of the new-bid events for one auction, in the order of emission.\<close>

fun new_bid_price_for :: "string \<Rightarrow> emission \<Rightarrow> rat option" where
  "new_bid_price_for k (Room_emit r (New_bid b p)) =
     (if bid_auction b = k then Some p else None)"
| "new_bid_price_for k _ = None"

definition prices_for :: "string \<Rightarrow> emission list \<Rightarrow> rat list" where
  "prices_for k ems = List.map_filter (new_bid_price_for k) ems"

definition above_price :: "state \<Rightarrow> string \<Rightarrow> rat \<Rightarrow> bool" where
  "above_price s k p = (case auctions s k of None \<Rightarrow> False | Some a \<Rightarrow> currentPrice a < p)"

section \<open>The routes of routes/auctions.js\<close>

text \<open>
  \<^verbatim>\<open>GET /api/auctions/:id\<close>: the auction as stored (the populated references and the
  list of its latest bids are left out).
\<close>

definition get_auction :: "state \<Rightarrow> string \<Rightarrow> auction option" where
  "get_auction s aid = auctions s aid"

text \<open>
  \<^verbatim>\<open>PUT /api/auctions/:id\<close>, after the rate limiter and the \<^verbatim>\<open>protect\<close> middleware
  have let the request through with \<^verbatim>\<open>req.user\<close> set. A field of the body is \<open>None\<close>
  when the body does not have it (\<^verbatim>\<open>undefined\<close>); \<^verbatim>\<open>if (title)\<close> is false for an
  absent and for an empty string. The schema trims title, description and category when
  they are assigned.
\<close>

record user =
  user_id :: string
  user_role :: string

record update_body =
  body_title :: "string option"
  body_description :: "string option"
  body_category :: "string option"
  body_image :: "string option"

datatype http_response =
  Json_error nat string
| Json_success auction

record update_faults =
  upd_find_err :: "string option"
  upd_save_err :: "string option"
  upd_refetch_err :: "string option"

text \<open>
  Strings are held as the bytes of their UTF-8 encoding. The schema's \<^verbatim>\<open>trim\<close> is
  \<^verbatim>\<open>String.prototype.trim\<close>, which removes from both ends the white space and line
  terminators of ECMAScript: U+0009 to U+000D, U+0020, U+00A0, U+1680, U+2000 to
  U+200A, U+2028, U+2029, U+202F, U+205F, U+3000 and U+FEFF, listed here as encoded.
\<close>

definition whitespace_codes :: "string list" where
  "whitespace_codes =
     [[CHR 0x09], [CHR 0x0A], [CHR 0x0B], [CHR 0x0C], [CHR 0x0D], [CHR 0x20],
      [CHR 0xC2, CHR 0xA0], [CHR 0xE1, CHR 0x9A, CHR 0x80],
      [CHR 0xE2, CHR 0x80, CHR 0x80], [CHR 0xE2, CHR 0x80, CHR 0x81],
      [CHR 0xE2, CHR 0x80, CHR 0x82], [CHR 0xE2, CHR 0x80, CHR 0x83],
      [CHR 0xE2, CHR 0x80, CHR 0x84], [CHR 0xE2, CHR 0x80, CHR 0x85],
      [CHR 0xE2, CHR 0x80, CHR 0x86], [CHR 0xE2, CHR 0x80, CHR 0x87],
      [CHR 0xE2, CHR 0x80, CHR 0x88], [CHR 0xE2, CHR 0x80, CHR 0x89],
      [CHR 0xE2, CHR 0x80, CHR 0x8A], [CHR 0xE2, CHR 0x80, CHR 0xA8],
      [CHR 0xE2, CHR 0x80, CHR 0xA9], [CHR 0xE2, CHR 0x80, CHR 0xAF],
      [CHR 0xE2, CHR 0x81, CHR 0x9F], [CHR 0xE3, CHR 0x80, CHR 0x80],
      [CHR 0xEF, CHR 0xBB, CHR 0xBF]]"

text \<open>Removes from the front of a string every leading occurrence of one of \<open>ws\<close>.\<close>

fun strip_start :: "string list \<Rightarrow> string \<Rightarrow> string" where
  "strip_start ws [] = []"
| "strip_start ws (c # cs) =
     (case find (\<lambda>w. w \<noteq> [] \<and> take (length w) (c # cs) = w) ws of
        None \<Rightarrow> c # cs
      | Some w \<Rightarrow> strip_start ws (drop (length w - 1) cs))"

definition str_trim :: "string \<Rightarrow> string" where
  "str_trim t =
     rev (strip_start (map rev whitespace_codes) (rev (strip_start whitespace_codes t)))"

definition put_auction ::
  "update_faults \<Rightarrow> user \<Rightarrow> string \<Rightarrow> update_body \<Rightarrow> state \<Rightarrow> state \<times> http_response" where
  "put_auction f u aid b s =
    (case upd_find_err f of
       Some e \<Rightarrow> (s, Json_error 500 e)
     | None \<Rightarrow>
      (case auctions s aid of
         None \<Rightarrow> (s, Json_error 404 ''Auction not found'')
       | Some a \<Rightarrow>
          if seller a \<noteq> user_id u \<and> user_role u \<noteq> ''admin''
          then (s, Json_error 403 ''Not authorized to update this auction'')
          else
            let a1 = (case body_title b of
                        Some t \<Rightarrow> if t \<noteq> [] then a\<lparr>title := str_trim t\<rparr> else a
                      | None \<Rightarrow> a);
                a2 = (case body_description b of
                        Some t \<Rightarrow> if t \<noteq> [] then a1\<lparr>description := str_trim t\<rparr> else a1
                      | None \<Rightarrow> a1);
                a3 = (case body_category b of
                        Some t \<Rightarrow> if t \<noteq> [] then a2\<lparr>category := str_trim t\<rparr> else a2
                      | None \<Rightarrow> a2);
                a4 = (case body_image b of
                        Some i \<Rightarrow> a3\<lparr>image_url := i\<rparr> | None \<Rightarrow> a3)
            in (case upd_save_err f of
                  Some e \<Rightarrow> (s, Json_error 500 e)
                | None \<Rightarrow>
                  let s' = s\<lparr>auctions := (auctions s)(aid \<mapsto> a4)\<rparr> in
                  (case upd_refetch_err f of
                     Some e \<Rightarrow> (s', Json_error 500 e)
                   | None \<Rightarrow> (s', Json_success a4)))))"

text \<open>Two auction documents that differ at most in the four listing fields.\<close>

definition same_but_listing :: "auction \<Rightarrow> auction \<Rightarrow> bool" where
  "same_but_listing a a' =
     (a' = a\<lparr>title := title a', description := description a',
             category := category a', image_url := image_url a'\<rparr>)"

section \<open>The order of the rejection tests, as a table\<close>

text \<open>
  The four tests of the handler in their priority order, each with what violates it and
  the message it rejects with. A test on the document cannot be violated when there is
  no document.
\<close>

datatype bid_check = Auction_exists | Auction_active | Before_deadline | Amount_higher

definition check_order :: "bid_check list" where
  "check_order = [Auction_exists, Auction_active, Before_deadline, Amount_higher]"

fun violates :: "int \<Rightarrow> place_bid_data \<Rightarrow> auction option \<Rightarrow> bid_check \<Rightarrow> bool" where
  "violates now d a Auction_exists = (a = None)"
| "violates now d a Auction_active =
     (case a of None \<Rightarrow> False | Some x \<Rightarrow> status x \<noteq> Active)"
| "violates now d a Before_deadline =
     (case a of None \<Rightarrow> False | Some x \<Rightarrow> now > endTime x)"
| "violates now d a Amount_higher =
     (case a of None \<Rightarrow> False | Some x \<Rightarrow> bidAmount d \<le> currentPrice x)"

fun rejection_message :: "bid_check \<Rightarrow> string" where
  "rejection_message Auction_exists = ''Auction not found''"
| "rejection_message Auction_active = ''Auction is not active''"
| "rejection_message Before_deadline = ''Auction has ended''"
| "rejection_message Amount_higher = ''Bid must be higher than current price''"

definition first_violation :: "int \<Rightarrow> place_bid_data \<Rightarrow> state \<Rightarrow> bid_check option" where
  "first_violation now d s = find (violates now d (auctions s (auctionId d))) check_order"

text \<open>A submission that one of the four tests rejects.\<close>

definition rejected :: "int \<Rightarrow> place_bid_data \<Rightarrow> state \<Rightarrow> bool" where
  "rejected now d s =
     (case auctions s (auctionId d) of
        None \<Rightarrow> True
      | Some a \<Rightarrow> status a \<noteq> Active \<or> now > endTime a \<or> bidAmount d \<le> currentPrice a)"

section \<open>Example data\<close>

definition auction0 :: auction where
  "auction0 = \<lparr>title = ''Lamp'', description = ''A lamp'', startingPrice = 100,
     currentPrice = 100, category = ''Home'', image_url = '''', status = Active,
     startTime = 0, endTime = 1000, seller = ''seller1'', highestBidder = None,
     bidCount = 0, createdAt = 0\<rparr>"

definition state0 :: state where
  "state0 = \<lparr>auctions = [''a1'' \<mapsto> auction0], bids = [], rooms = (\<lambda>r. {})\<rparr>"

definition alice :: socket where
  "alice = \<lparr>socket_id = 1, userId = ''alice'', userRole = ''user''\<rparr>"

definition empty_state :: state where
  "empty_state = \<lparr>auctions = Map.empty, bids = [], rooms = (\<lambda>r. {})\<rparr>"

text \<open>
  The example state after alice has joined the room of auction a1, and a store whose
  read-back of the saved bid fails.
\<close>

definition joined_state :: state where
  "joined_state = join_auction alice ''a1'' state0"

definition read_back_fails :: store_faults where
  "read_back_fails = no_faults\<lparr>bid_populate_err := Some ''connection lost''\<rparr>"

definition bob :: socket where
  "bob = \<lparr>socket_id = 2, userId = ''bob'', userRole = ''user''\<rparr>"

definition seller_socket :: socket where
  "seller_socket = \<lparr>socket_id = 3, userId = ''seller1'', userRole = ''user''\<rparr>"

text \<open>
  Two bids on the example auction, 120 from alice and 110 from bob, arriving together:
  the two handlers take turns at every await.
\<close>

definition race_world :: world where
  "race_world = \<lparr>w_state = state0,
     w_tasks = [Start alice \<lparr>auctionId = ''a1'', bidAmount = 120\<rparr>,
                Start bob \<lparr>auctionId = ''a1'', bidAmount = 110\<rparr>],
     w_log = []\<rparr>"

definition race_schedule :: "(nat \<times> int) list" where
  "race_schedule =
     [(0, 500), (1, 500), (0, 501), (1, 501), (0, 502), (1, 502), (0, 503), (1, 503)]"

section \<open>Accepting and rejecting a bid\<close>

lemma committed_neq: "committed sock d a s \<noteq> s"
proof
  assume "committed sock d a s = s"
  then have "bids (committed sock d a s) = bids s" by simp
  then show False by (simp add: committed_def)
qed

text \<open>
  C1. On an existing, active auction whose deadline has not passed, and with the store
  calls of the commit resolving, the handler commits the bid (appends the Bid record and
  records the new currentPrice and highestBidder) if and only if the amount is strictly
  greater than currentPrice; an amount equal to currentPrice is rejected with
  "Bid must be higher than current price" and changes nothing.
\<close>

theorem place_bid_commits_iff_higher:
  assumes "find_auction_err f = None" and "bid_save_err f = None"
    and "auction_save_err f = None"
    and "auctions s (auctionId d) = Some a" and "status a = Active"
    and "\<not> now > endTime a"
  shows "(fst (place_bid f now sock d s) = committed sock d a s
            \<longleftrightarrow> bidAmount d > currentPrice a)
       \<and> (bidAmount d = currentPrice a \<longrightarrow>
            place_bid f now sock d s
              = (s, [bid_error sock ''Bid must be higher than current price'']))"
proof (cases "bidAmount d \<le> currentPrice a")
  case True
  with assms have "place_bid f now sock d s
      = (s, [bid_error sock ''Bid must be higher than current price''])"
    by (simp add: place_bid_def)
  with True show ?thesis
    using committed_neq [of sock d a s] by auto
next
  case False
  with assms have "fst (place_bid f now sock d s) = committed sock d a s"
    by (simp add: place_bid_def committed_def Let_def split: option.splits)
  with False show ?thesis by auto
qed

theorem place_bid_commits_iff_higher_witness:
  "fst (place_bid no_faults 500 alice \<lparr>auctionId = ''a1'', bidAmount = 150\<rparr> state0)
     = committed alice \<lparr>auctionId = ''a1'', bidAmount = 150\<rparr> auction0 state0
   \<and> place_bid no_faults 500 alice \<lparr>auctionId = ''a1'', bidAmount = 100\<rparr> state0
     = (state0, [bid_error alice ''Bid must be higher than current price''])"
proof -
  have h: "find_auction_err no_faults = None" "bid_save_err no_faults = None"
    "auction_save_err no_faults = None"
    by (simp_all add: no_faults_def)
  have a: "auctions state0 (auctionId \<lparr>auctionId = ''a1'', bidAmount = 150\<rparr>) = Some auction0"
    "auctions state0 (auctionId \<lparr>auctionId = ''a1'', bidAmount = 100\<rparr>) = Some auction0"
    "status auction0 = Active" "\<not> 500 > endTime auction0"
    by (simp_all add: state0_def auction0_def)
  from place_bid_commits_iff_higher [OF h a(1) a(3) a(4), where sock = alice]
  have 1: "fst (place_bid no_faults 500 alice \<lparr>auctionId = ''a1'', bidAmount = 150\<rparr> state0)
     = committed alice \<lparr>auctionId = ''a1'', bidAmount = 150\<rparr> auction0 state0"
    by (simp add: auction0_def)
  from place_bid_commits_iff_higher [OF h a(2) a(3) a(4), where sock = alice]
  have 2: "place_bid no_faults 500 alice \<lparr>auctionId = ''a1'', bidAmount = 100\<rparr> state0
     = (state0, [bid_error alice ''Bid must be higher than current price''])"
    by (simp add: auction0_def)
  from 1 2 show ?thesis by simp
qed

text \<open>
  C2. A submission that one of the four tests rejects (auction not found, not active,
  past its deadline, amount not above currentPrice) leaves the whole state as it was:
  no price or bidder changes, no Bid record is added, nothing goes to a room; the only
  output is one bid-error to the submitting socket.
\<close>

theorem rejected_bid_changes_nothing:
  assumes "find_auction_err f = None" and "rejected now d s"
  shows "fst (place_bid f now sock d s) = s
       \<and> (\<exists>msg. snd (place_bid f now sock d s)
                  = [Socket_emit (socket_id sock) (Bid_error msg)])"
  using assms
  by (auto simp: place_bid_def rejected_def bid_error_def split: option.splits)

theorem rejected_bid_changes_nothing_witness:
  "rejected 500 \<lparr>auctionId = ''a1'', bidAmount = 90\<rparr> state0
   \<and> fst (place_bid no_faults 500 alice \<lparr>auctionId = ''a1'', bidAmount = 90\<rparr> state0) = state0
   \<and> (\<exists>msg. snd (place_bid no_faults 500 alice \<lparr>auctionId = ''a1'', bidAmount = 90\<rparr> state0)
               = [Socket_emit (socket_id alice) (Bid_error msg)])"
proof -
  have f: "find_auction_err no_faults = None" by (simp add: no_faults_def)
  have r: "rejected 500 \<lparr>auctionId = ''a1'', bidAmount = 90\<rparr> state0"
    by (simp add: rejected_def state0_def auction0_def)
  from rejected_bid_changes_nothing [OF f r, where sock = alice] r show ?thesis by simp
qed

text \<open>
  C10. When the lookup resolves, the handler rejects with the message of the first test,
  in the order exists, active, before deadline, amount higher, that the submission
  violates, as its single output and without changing the state; when no test is
  violated it goes on to save the bid.
\<close>

theorem rejection_follows_check_order:
  assumes "find_auction_err f = None"
  shows "case first_violation now d s of
           Some c \<Rightarrow> place_bid f now sock d s = (s, [bid_error sock (rejection_message c)])
         | None \<Rightarrow> bid_save_err f = None \<longrightarrow>
             bids (fst (place_bid f now sock d s)) = bids s @ [new_bid_of sock d]"
proof (cases "auctions s (auctionId d)")
  case None
  with assms show ?thesis
    by (simp add: first_violation_def check_order_def place_bid_def)
next
  case (Some a)
  with assms show ?thesis
    by (simp add: first_violation_def check_order_def place_bid_def Let_def
        split: option.splits)
qed

text \<open>
  The example of C10: a bid of 90 against a price of 100, on an auction that is still
  marked active but whose deadline has passed, is told that the auction has ended.
\<close>

theorem rejection_follows_check_order_witness:
  "first_violation 2000 \<lparr>auctionId = ''a1'', bidAmount = 90\<rparr> state0 = Some Before_deadline
   \<and> violates 2000 \<lparr>auctionId = ''a1'', bidAmount = 90\<rparr> (Some auction0) Amount_higher
   \<and> place_bid no_faults 2000 alice \<lparr>auctionId = ''a1'', bidAmount = 90\<rparr> state0
       = (state0, [bid_error alice ''Auction has ended''])"
proof -
  have f: "find_auction_err no_faults = None" by (simp add: no_faults_def)
  have v: "first_violation 2000 \<lparr>auctionId = ''a1'', bidAmount = 90\<rparr> state0
             = Some Before_deadline"
    by (simp add: first_violation_def check_order_def state0_def auction0_def)
  have a: "violates 2000 \<lparr>auctionId = ''a1'', bidAmount = 90\<rparr> (Some auction0) Amount_higher"
    by (simp add: auction0_def)
  from rejection_follows_check_order
         [OF f, where now = 2000 and d = "\<lparr>auctionId = ''a1'', bidAmount = 90\<rparr>"
            and s = state0 and sock = alice] v a
  show ?thesis by simp
qed

section \<open>Bids by the seller\<close>

text \<open>
  C3. A submission whose bidder is the auction's seller is to be rejected whatever the
  amount. The handler never reads \<^verbatim>\<open>auction.seller\<close>: on the example auction, whose
  seller is \<open>seller1\<close>, a bid of 150 from the socket of \<open>seller1\<close> is committed and
  broadcast like any other.
\<close>

theorem seller_bid_is_committed:
  "seller auction0 = userId seller_socket
   \<and> place_bid no_faults 500 seller_socket \<lparr>auctionId = ''a1'', bidAmount = 150\<rparr> state0
     = (committed seller_socket \<lparr>auctionId = ''a1'', bidAmount = 150\<rparr> auction0 state0,
        [Room_emit ''auction-a1''
           (New_bid \<lparr>bid_auction = ''a1'', bidder = ''seller1'', amount = 150\<rparr> 150)])"
  by (simp add: place_bid_def committed_def no_faults_def state0_def auction0_def
      seller_socket_def new_bid_of_def room_name_def)

section \<open>Bids after the deadline\<close>

text \<open>
  C4, as stated, fails: a bid of 150 at time 2000 on the example auction (deadline 1000,
  price 100, marked active) is rejected with "Auction has ended", and the auction read
  afterwards is still marked active, not ended.
\<close>

theorem late_bid_leaves_status_active:
  "endTime auction0 < 2000
   \<and> place_bid no_faults 2000 alice \<lparr>auctionId = ''a1'', bidAmount = 150\<rparr> state0
       = (state0, [bid_error alice ''Auction has ended''])
   \<and> map_option status
        (get_auction
           (fst (place_bid no_faults 2000 alice \<lparr>auctionId = ''a1'', bidAmount = 150\<rparr> state0))
           ''a1'') = Some Active"
  by (simp add: place_bid_def no_faults_def state0_def auction0_def get_auction_def)

text \<open>
  C4, amended. A submission made after the deadline of an existing auction is rejected
  whatever its amount: with "Auction has ended" when the auction is marked active, with
  "Auction is not active" otherwise. Nothing is changed by the attempt: the auction read
  afterwards is the auction as it was, its status included.
\<close>

theorem late_bid_rejected_unchanged:
  assumes "find_auction_err f = None" and "auctions s (auctionId d) = Some a"
    and "now > endTime a"
  shows "place_bid f now sock d s
           = (s, [bid_error sock (if status a = Active then ''Auction has ended''
                                  else ''Auction is not active'')])
       \<and> get_auction (fst (place_bid f now sock d s)) (auctionId d) = Some a"
  using assms by (simp add: place_bid_def get_auction_def)

theorem late_bid_rejected_unchanged_witness:
  "place_bid no_faults 2000 alice \<lparr>auctionId = ''a1'', bidAmount = 150\<rparr> state0
     = (state0, [bid_error alice ''Auction has ended''])
   \<and> get_auction
        (fst (place_bid no_faults 2000 alice \<lparr>auctionId = ''a1'', bidAmount = 150\<rparr> state0))
        ''a1'' = Some auction0"
proof -
  have f: "find_auction_err no_faults = None" by (simp add: no_faults_def)
  have a: "auctions state0 (auctionId \<lparr>auctionId = ''a1'', bidAmount = 150\<rparr>) = Some auction0"
    by (simp add: state0_def)
  have t: "2000 > endTime auction0" by (simp add: auction0_def)
  have st: "status auction0 = Active" by (simp add: auction0_def)
  from late_bid_rejected_unchanged [OF f a t, where sock = alice] st
  show ?thesis by auto
qed

section \<open>What a commit records\<close>

text \<open>
  C6, as stated, fails: after the first bid on the example auction has been committed,
  the bid collection holds one bid for the auction and the auction's bidCount is
  still 0.
\<close>

theorem commit_leaves_bidCount:
  "length (filter (\<lambda>b. bid_auction b = ''a1'')
      (bids (fst (place_bid no_faults 500 alice \<lparr>auctionId = ''a1'', bidAmount = 150\<rparr> state0))))
     = 1
   \<and> map_option bidCount
        (auctions (fst (place_bid no_faults 500 alice \<lparr>auctionId = ''a1'', bidAmount = 150\<rparr> state0))
           ''a1'') = Some 0"
  by (simp add: place_bid_def no_faults_def state0_def auction0_def new_bid_of_def)

text \<open>
  C6, amended. A commit adds one Bid record, made of the auction identifier, the
  bidder and the amount, at the end of the bid collection, and records the amount as
  the auction's currentPrice and the bidder as its highestBidder. The record carries no
  sequence number; its place in the collection is the order of the commits.
\<close>

theorem commit_appends_bid_and_sets_price:
  assumes "find_auction_err f = None" and "bid_save_err f = None"
    and "auction_save_err f = None"
    and "auctions s (auctionId d) = Some a" and "status a = Active"
    and "\<not> now > endTime a" and "bidAmount d > currentPrice a"
  shows "bids (fst (place_bid f now sock d s))
           = bids s @ [\<lparr>bid_auction = auctionId d, bidder = userId sock, amount = bidAmount d\<rparr>]
       \<and> map_option currentPrice (auctions (fst (place_bid f now sock d s)) (auctionId d))
           = Some (bidAmount d)
       \<and> map_option highestBidder (auctions (fst (place_bid f now sock d s)) (auctionId d))
           = Some (Some (userId sock))"
  using assms
  by (simp add: place_bid_def new_bid_of_def Let_def split: option.splits)

theorem commit_appends_bid_and_sets_price_witness:
  "bids (fst (place_bid no_faults 500 alice \<lparr>auctionId = ''a1'', bidAmount = 150\<rparr> state0))
     = [\<lparr>bid_auction = ''a1'', bidder = ''alice'', amount = 150\<rparr>]
   \<and> map_option currentPrice
       (auctions (fst (place_bid no_faults 500 alice \<lparr>auctionId = ''a1'', bidAmount = 150\<rparr> state0))
          ''a1'') = Some 150
   \<and> map_option highestBidder
       (auctions (fst (place_bid no_faults 500 alice \<lparr>auctionId = ''a1'', bidAmount = 150\<rparr> state0))
          ''a1'') = Some (Some ''alice'')"
proof -
  have h: "find_auction_err no_faults = None" "bid_save_err no_faults = None"
    "auction_save_err no_faults = None"
    by (simp_all add: no_faults_def)
  have a: "auctions state0 (auctionId \<lparr>auctionId = ''a1'', bidAmount = 150\<rparr>) = Some auction0"
    "status auction0 = Active" "\<not> 500 > endTime auction0"
    "bidAmount \<lparr>auctionId = ''a1'', bidAmount = 150\<rparr> > currentPrice auction0"
    by (simp_all add: state0_def auction0_def)
  from commit_appends_bid_and_sets_price [OF h a, where sock = alice]
  show ?thesis by (simp add: state0_def alice_def)
qed

section \<open>Malformed submissions\<close>

text \<open>
  C7, as stated, fails: the handler validates nothing before it looks the auction up.
  A bid of -5 is answered from the auction state: "Bid must be higher than current
  price" where auction a1 exists, "Auction not found" where it does not.
\<close>

theorem negative_amount_answered_from_store:
  "place_bid no_faults 500 alice \<lparr>auctionId = ''a1'', bidAmount = - 5\<rparr> state0
     = (state0, [bid_error alice ''Bid must be higher than current price''])
   \<and> place_bid no_faults 500 alice \<lparr>auctionId = ''a1'', bidAmount = - 5\<rparr> empty_state
     = (empty_state, [bid_error alice ''Auction not found''])"
  by (simp add: place_bid_def no_faults_def state0_def auction0_def empty_state_def)

text \<open>
  C7, amended. There is no shape validation and no InvalidBid answer. An identifier
  whose lookup throws is rejected with the thrown message. An amount that is not
  positive is rejected after the lookup, by the first of the four tests it fails; as
  stored prices are never negative (the schema's minimum is 0), the price test fails
  at the latest. Either way nothing is changed.
\<close>

theorem malformed_bid_never_commits:
  "(find_auction_err f = Some e \<longrightarrow> place_bid f now sock d s = (s, [bid_error sock e]))
   \<and> (find_auction_err f = None \<and> bidAmount d \<le> 0
        \<and> (\<forall>a. auctions s (auctionId d) = Some a \<longrightarrow> 0 \<le> currentPrice a)
      \<longrightarrow> place_bid f now sock d s
          = (s, [bid_error sock
                  (case auctions s (auctionId d) of
                     None \<Rightarrow> ''Auction not found''
                   | Some a \<Rightarrow>
                       if status a \<noteq> Active then ''Auction is not active''
                       else if now > endTime a then ''Auction has ended''
                       else ''Bid must be higher than current price'')]))"
  by (auto simp: place_bid_def split: option.splits)

theorem malformed_bid_never_commits_witness:
  "place_bid (no_faults\<lparr>find_auction_err := Some ''Cast to ObjectId failed''\<rparr>) 500 alice
      \<lparr>auctionId = ''?'', bidAmount = 150\<rparr> state0
     = (state0, [bid_error alice ''Cast to ObjectId failed''])
   \<and> place_bid no_faults 500 alice \<lparr>auctionId = ''a1'', bidAmount = 0\<rparr> state0
     = (state0, [bid_error alice ''Bid must be higher than current price''])"
proof -
  have 1: "find_auction_err (no_faults\<lparr>find_auction_err := Some ''Cast to ObjectId failed''\<rparr>)
             = Some ''Cast to ObjectId failed''"
    by simp
  have 2: "find_auction_err no_faults = None
           \<and> bidAmount \<lparr>auctionId = ''a1'', bidAmount = 0\<rparr> \<le> 0
           \<and> (\<forall>a. auctions state0 (auctionId \<lparr>auctionId = ''a1'', bidAmount = 0\<rparr>) = Some a
                 \<longrightarrow> 0 \<le> currentPrice a)"
    by (simp add: no_faults_def state0_def auction0_def)
  from malformed_bid_never_commits
         [where f = "no_faults\<lparr>find_auction_err := Some ''Cast to ObjectId failed''\<rparr>"
            and e = "''Cast to ObjectId failed''" and now = 500 and sock = alice
            and d = "\<lparr>auctionId = ''?'', bidAmount = 150\<rparr>" and s = state0] 1
  have a: "place_bid (no_faults\<lparr>find_auction_err := Some ''Cast to ObjectId failed''\<rparr>) 500 alice
      \<lparr>auctionId = ''?'', bidAmount = 150\<rparr> state0
     = (state0, [bid_error alice ''Cast to ObjectId failed''])"
    by blast
  from malformed_bid_never_commits
         [where f = no_faults and now = 500 and sock = alice
            and d = "\<lparr>auctionId = ''a1'', bidAmount = 0\<rparr>" and s = state0] 2
  have "place_bid no_faults 500 alice \<lparr>auctionId = ''a1'', bidAmount = 0\<rparr> state0
     = (state0, [bid_error alice
          (case auctions state0 (auctionId \<lparr>auctionId = ''a1'', bidAmount = 0\<rparr>) of
             None \<Rightarrow> ''Auction not found''
           | Some a \<Rightarrow>
               if status a \<noteq> Active then ''Auction is not active''
               else if 500 > endTime a then ''Auction has ended''
               else ''Bid must be higher than current price'')])"
    by blast
  then have b: "place_bid no_faults 500 alice \<lparr>auctionId = ''a1'', bidAmount = 0\<rparr> state0
     = (state0, [bid_error alice ''Bid must be higher than current price''])"
    by (simp add: state0_def auction0_def)
  from a b show ?thesis by simp
qed

section \<open>What the submitter hears\<close>

text \<open>
  C8, as stated, fails, at three submissions of alice for auction a1.
  \<^item> The broadcast goes to the room of the auction, and a socket is in that room only
    after it has sent join-auction: bidding 150 without having joined, alice has her
    bid committed and receives nothing.
  \<^item> A submission without payload throws before the \<^verbatim>\<open>try\<close> block: alice, having
    joined, receives nothing.
  \<^item> When the read-back of the saved bid fails, the bid of 150 is committed and alice,
    having joined, receives a bid-error instead of the new-bid.
\<close>

theorem submitter_not_answered_as_claimed:
  "socket_id alice \<notin> rooms state0 (room_name ''a1'')
   \<and> fst (on_place_bid no_faults 500 alice (Some \<lparr>auctionId = ''a1'', bidAmount = 150\<rparr>) state0)
       = committed alice \<lparr>auctionId = ''a1'', bidAmount = 150\<rparr> auction0 state0
   \<and> received (rooms state0) (socket_id alice)
       (snd (on_place_bid no_faults 500 alice (Some \<lparr>auctionId = ''a1'', bidAmount = 150\<rparr>) state0))
       = []
   \<and> socket_id alice \<in> rooms joined_state (room_name ''a1'')
   \<and> received (rooms joined_state) (socket_id alice)
       (snd (on_place_bid no_faults 500 alice None joined_state)) = []
   \<and> fst (on_place_bid read_back_fails 500 alice
             (Some \<lparr>auctionId = ''a1'', bidAmount = 150\<rparr>) joined_state)
       = committed alice \<lparr>auctionId = ''a1'', bidAmount = 150\<rparr> auction0 joined_state
   \<and> received (rooms joined_state) (socket_id alice)
       (snd (on_place_bid read_back_fails 500 alice
               (Some \<lparr>auctionId = ''a1'', bidAmount = 150\<rparr>) joined_state))
       = [Bid_error ''connection lost'']"
  by (simp add: on_place_bid_def place_bid_def committed_def no_faults_def state0_def
      auction0_def received_def alice_def joined_state_def join_auction_def
      read_back_fails_def bid_error_def room_name_def)

text \<open>
  C8, amended. A submission that carries a payload makes the handler emit exactly one
  event, never both kinds and never none: one new-bid to the room of the auction, or
  one bid-error to the submitting socket.
  \<^item> new-bid is emitted only together with a commit, and carries the committed bid.
  \<^item> new-bid is emitted whenever the four tests pass and the store calls resolve, and
    on every commit whose read-back resolves.
  \<^item> bid-error is emitted on every rejection, that is when the lookup throws or one of
    the four tests fails, and then nothing is changed.
  \<^item> A submitter that has joined the room of the auction therefore receives exactly one
    event.
\<close>

theorem place_bid_answers_once:
  "(let r = on_place_bid f now sock (Some d) s in
     ((\<exists>a. auctions s (auctionId d) = Some a \<and> fst r = committed sock d a s)
         \<and> snd r = [new_bid_emission sock d]
       \<or> (\<exists>msg. snd r = [Socket_emit (socket_id sock) (Bid_error msg)]))
     \<and> (find_auction_err f = None \<and> bid_save_err f = None \<and> auction_save_err f = None
          \<and> bid_populate_err f = None \<and> \<not> rejected now d s
        \<longrightarrow> snd r = [new_bid_emission sock d])
     \<and> (bid_populate_err f = None
          \<and> (\<exists>a. auctions s (auctionId d) = Some a \<and> fst r = committed sock d a s)
        \<longrightarrow> snd r = [new_bid_emission sock d])
     \<and> (find_auction_err f \<noteq> None \<or> rejected now d s
        \<longrightarrow> fst r = s \<and> (\<exists>msg. snd r = [Socket_emit (socket_id sock) (Bid_error msg)]))
     \<and> (socket_id sock \<in> rooms s (room_name (auctionId d))
        \<longrightarrow> length (received (rooms s) (socket_id sock) (snd r)) = 1))"
proof -
  let ?r = "place_bid f now sock d s"
  have one: "((\<exists>a. auctions s (auctionId d) = Some a \<and> fst ?r = committed sock d a s)
         \<and> snd ?r = [new_bid_emission sock d])
       \<or> (\<exists>msg. snd ?r = [Socket_emit (socket_id sock) (Bid_error msg)])"
    by (auto simp: place_bid_def committed_def new_bid_emission_def bid_error_def Let_def
        split: option.splits)
  have ok: "find_auction_err f = None \<and> bid_save_err f = None \<and> auction_save_err f = None
          \<and> bid_populate_err f = None \<and> \<not> rejected now d s
        \<longrightarrow> snd ?r = [new_bid_emission sock d]"
    by (auto simp: place_bid_def rejected_def new_bid_emission_def Let_def
        split: option.splits)
  have com: "bid_populate_err f = None
          \<and> (\<exists>a. auctions s (auctionId d) = Some a \<and> fst ?r = committed sock d a s)
        \<longrightarrow> snd ?r = [new_bid_emission sock d]"
  proof (intro impI, elim conjE exE)
    fix a
    assume p: "bid_populate_err f = None" and a: "auctions s (auctionId d) = Some a"
      and c: "fst ?r = committed sock d a s"
    have neq: "committed sock d a s \<noteq> s" by (rule committed_neq)
    have half: "currentPrice a < bidAmount d \<Longrightarrow>
        s\<lparr>bids := bids s @ [new_bid_of sock d]\<rparr> \<noteq> committed sock d a s"
    proof
      assume lt: "currentPrice a < bidAmount d"
        and eq: "s\<lparr>bids := bids s @ [new_bid_of sock d]\<rparr> = committed sock d a s"
      from eq have "auctions (s\<lparr>bids := bids s @ [new_bid_of sock d]\<rparr>) (auctionId d)
          = auctions (committed sock d a s) (auctionId d)" by simp
      with a have "a = a\<lparr>currentPrice := bidAmount d, highestBidder := Some (userId sock)\<rparr>"
        by (simp add: committed_def)
      then have "currentPrice a
          = currentPrice (a\<lparr>currentPrice := bidAmount d, highestBidder := Some (userId sock)\<rparr>)"
        by (rule arg_cong)
      then have "currentPrice a = bidAmount d" by simp
      with lt show False by simp
    qed
    from p a c neq half show "snd ?r = [new_bid_emission sock d]"
      by (auto simp: place_bid_def new_bid_emission_def Let_def
          split: option.splits if_splits)
  qed
  have rej: "find_auction_err f \<noteq> None \<or> rejected now d s
        \<longrightarrow> fst ?r = s \<and> (\<exists>msg. snd ?r = [Socket_emit (socket_id sock) (Bid_error msg)])"
    by (auto simp: place_bid_def rejected_def bid_error_def split: option.splits)
  have rcv: "socket_id sock \<in> rooms s (room_name (auctionId d))
        \<longrightarrow> length (received (rooms s) (socket_id sock) (snd ?r)) = 1"
    using one by (auto simp: received_def new_bid_emission_def)
  from one ok com rej rcv show ?thesis
    by (simp add: on_place_bid_def Let_def)
qed

text \<open>
  Alice, having joined, bids 150 and then 90 against the price of 100: the first bid is
  committed and she receives the new-bid carrying it; the second changes nothing and
  she receives one bid-error.
\<close>

theorem place_bid_answers_once_witness:
  "fst (on_place_bid no_faults 500 alice (Some \<lparr>auctionId = ''a1'', bidAmount = 150\<rparr>) joined_state)
     = committed alice \<lparr>auctionId = ''a1'', bidAmount = 150\<rparr> auction0 joined_state
   \<and> received (rooms joined_state) (socket_id alice)
       (snd (on_place_bid no_faults 500 alice
               (Some \<lparr>auctionId = ''a1'', bidAmount = 150\<rparr>) joined_state))
     = [New_bid \<lparr>bid_auction = ''a1'', bidder = ''alice'', amount = 150\<rparr> 150]
   \<and> fst (on_place_bid no_faults 500 alice (Some \<lparr>auctionId = ''a1'', bidAmount = 90\<rparr>) joined_state)
     = joined_state
   \<and> (\<exists>msg. snd (on_place_bid no_faults 500 alice
                    (Some \<lparr>auctionId = ''a1'', bidAmount = 90\<rparr>) joined_state)
               = [Socket_emit (socket_id alice) (Bid_error msg)])
   \<and> length (received (rooms joined_state) (socket_id alice)
       (snd (on_place_bid no_faults 500 alice
               (Some \<lparr>auctionId = ''a1'', bidAmount = 90\<rparr>) joined_state))) = 1"
proof -
  let ?hi = "\<lparr>auctionId = ''a1'', bidAmount = 150\<rparr>"
  let ?lo = "\<lparr>auctionId = ''a1'', bidAmount = 90\<rparr>"
  have f: "find_auction_err no_faults = None \<and> bid_save_err no_faults = None
      \<and> auction_save_err no_faults = None \<and> bid_populate_err no_faults = None"
    by (simp add: no_faults_def)
  have a: "auctions joined_state ''a1'' = Some auction0"
    by (simp add: joined_state_def join_auction_def state0_def)
  have j: "socket_id alice \<in> rooms joined_state (room_name ''a1'')"
    by (simp add: joined_state_def join_auction_def)
  have hi: "\<not> rejected 500 ?hi joined_state"
    using a by (simp add: rejected_def auction0_def)
  have lo: "rejected 500 ?lo joined_state"
    using a by (simp add: rejected_def auction0_def)
  note t_hi = place_bid_answers_once
    [where f = no_faults and now = 500 and sock = alice and d = ?hi and s = joined_state,
      unfolded Let_def]
  note t_lo = place_bid_answers_once
    [where f = no_faults and now = 500 and sock = alice and d = ?lo and s = joined_state,
      unfolded Let_def]
  from t_hi f hi
  have e: "snd (on_place_bid no_faults 500 alice (Some ?hi) joined_state)
      = [new_bid_emission alice ?hi]"
    by blast
  have "new_bid_emission alice ?hi \<noteq> Socket_emit (socket_id alice) (Bid_error msg)" for msg
    by (simp add: new_bid_emission_def)
  with t_hi e a
  have c: "fst (on_place_bid no_faults 500 alice (Some ?hi) joined_state)
      = committed alice ?hi auction0 joined_state"
    by auto
  from e j
  have r: "received (rooms joined_state) (socket_id alice)
       (snd (on_place_bid no_faults 500 alice (Some ?hi) joined_state))
     = [New_bid \<lparr>bid_auction = ''a1'', bidder = ''alice'', amount = 150\<rparr> 150]"
    by (simp add: received_def new_bid_emission_def new_bid_of_def alice_def)
  from t_lo lo
  have n: "fst (on_place_bid no_faults 500 alice (Some ?lo) joined_state) = joined_state
     \<and> (\<exists>msg. snd (on_place_bid no_faults 500 alice (Some ?lo) joined_state)
                 = [Socket_emit (socket_id alice) (Bid_error msg)])"
    by blast
  from t_lo j
  have l: "length (received (rooms joined_state) (socket_id alice)
       (snd (on_place_bid no_faults 500 alice (Some ?lo) joined_state))) = 1"
    by simp
  from c r n l show ?thesis by blast
qed

section \<open>Bids in flight together\<close>

text \<open>
  A handler that is resumed four times in a row, with nothing running in between and
  every store call resolving, does what \<open>place_bid\<close> does.
\<close>

lemma run_alone_is_place_bid:
  "run_alone 4 now (Start sock d) s [] = place_bid no_faults now sock d s"
  by (simp add: numeral_eq_Suc place_bid_def no_faults_def Let_def split: option.splits)

text \<open>
  Bid handlers never remove an auction, so a handler that has read a document finds it
  stored when it saves, however the handlers take turns.
\<close>

lemma step_task_keeps_auctions:
  assumes "step_task now t s = (t', s', out)"
  shows "(auctions s' k = None) = (auctions s k = None)"
  using assms
  by (cases "(now, t, s)" rule: step_task.cases) (auto split: if_splits option.splits)

lemma document_stored_Found:
  "document_stored s (Found sock d x) = (x = None \<or> auctions s (auctionId d) \<noteq> None)"
  by (cases x) simp_all

lemma step_task_keeps_document:
  assumes "step_task now t s = (t', s', out)" and "document_stored s t"
  shows "document_stored s' t'"
  using assms
  by (cases "(now, t, s)" rule: step_task.cases)
     (auto simp: document_stored_Found split: if_splits option.splits)

lemma document_stored_cong:
  assumes "\<And>k. (auctions s' k = None) = (auctions s k = None)" and "document_stored s t"
  shows "document_stored s' t"
  using assms by (cases "(s, t)" rule: document_stored.cases) auto

lemma resume_keeps_documents:
  assumes "documents_stored w"
  shows "documents_stored (resume i now w)"
proof (cases "i < length (w_tasks w)")
  case False
  with assms show ?thesis by (simp add: resume_def)
next
  case True
  obtain t' s' out where st: "step_task now (w_tasks w ! i) (w_state w) = (t', s', out)"
    by (cases "step_task now (w_tasks w ! i) (w_state w)") auto
  from assms have all: "\<forall>t \<in> set (w_tasks w). document_stored (w_state w) t"
    by (simp add: documents_stored_def list_all_iff)
  with True have "document_stored (w_state w) (w_tasks w ! i)" by simp
  with st have new: "document_stored s' t'" by (rule step_task_keeps_document)
  have same: "\<And>k. (auctions s' k = None) = (auctions (w_state w) k = None)"
    using st by (rule step_task_keeps_auctions)
  have "\<forall>t \<in> set ((w_tasks w)[i := t']). document_stored s' t"
  proof
    fix t assume "t \<in> set ((w_tasks w)[i := t'])"
    then have "t = t' \<or> t \<in> set (w_tasks w)"
      using set_update_subset_insert [of "w_tasks w" i t'] by auto
    with new all same show "document_stored s' t"
      using document_stored_cong by blast
  qed
  with True st show ?thesis
    by (simp add: resume_def documents_stored_def list_all_iff)
qed

lemma run_schedule_keeps_documents:
  assumes "documents_stored w"
  shows "documents_stored (run_schedule sch w)"
  using assms
  by (induction sch arbitrary: w) (auto simp: resume_keeps_documents)

lemma race_world_keeps_documents: "documents_stored (run_schedule sch race_world)"
  by (rule run_schedule_keeps_documents) (simp add: documents_stored_def race_world_def)

text \<open>
  When the handlers run one after the other, whatever store calls fail, the prices
  broadcast for an auction go strictly up, each above the price the auction had before.
\<close>

lemma prices_for_append: "prices_for k (xs @ ys) = prices_for k xs @ prices_for k ys"
  by (simp add: prices_for_def map_filter_def)

lemma place_bid_price_grows:
  assumes "above_price (fst (place_bid f now sock d s)) k p"
  shows "above_price s k p"
  using assms
  by (auto simp: place_bid_def above_price_def Let_def split: option.splits if_splits)

lemma place_bid_emitted_price:
  assumes "p \<in> set (prices_for k (snd (place_bid f now sock d s)))"
  shows "prices_for k (snd (place_bid f now sock d s)) = [p] \<and> above_price s k p
       \<and> (\<forall>q. above_price (fst (place_bid f now sock d s)) k q \<longrightarrow> p < q)"
  using assms
  by (auto simp: place_bid_def above_price_def prices_for_def map_filter_def bid_error_def
      new_bid_of_def Let_def split: option.splits if_splits)

lemma sequential_prices_increase:
  "sorted_wrt (<) (prices_for k (snd (run_bids xs s)))
   \<and> (\<forall>p \<in> set (prices_for k (snd (run_bids xs s))). above_price s k p)"
proof (induction xs arbitrary: s)
  case Nil
  show ?case by (simp add: prices_for_def map_filter_def)
next
  case (Cons x xs)
  obtain f now sock d where x: "x = (f, now, sock, d)" by (cases x) auto
  let ?s' = "fst (place_bid f now sock d s)"
  let ?out = "snd (place_bid f now sock d s)"
  have run: "snd (run_bids (x # xs) s) = ?out @ snd (run_bids xs ?s')"
    by (simp add: x split: prod.splits)
  have ih1: "sorted_wrt (<) (prices_for k (snd (run_bids xs ?s')))"
    and ih2: "\<forall>p \<in> set (prices_for k (snd (run_bids xs ?s'))). above_price ?s' k p"
    using Cons.IH [of ?s'] by auto
  have later: "\<forall>p \<in> set (prices_for k (snd (run_bids xs ?s'))). above_price s k p"
    using ih2 place_bid_price_grows by blast
  show ?case
  proof (cases "prices_for k ?out")
    case Nil
    with ih1 later show ?thesis by (simp add: run prices_for_append)
  next
    case (Cons p ps)
    then have "p \<in> set (prices_for k ?out)" by simp
    from place_bid_emitted_price [OF this]
    have one: "prices_for k ?out = [p]" and ab: "above_price s k p"
      and lt: "\<forall>q. above_price ?s' k q \<longrightarrow> p < q" by auto
    from ih2 lt have "\<forall>q \<in> set (prices_for k (snd (run_bids xs ?s'))). p < q" by blast
    with ih1 later one ab show ?thesis by (simp add: run prices_for_append)
  qed
qed

text \<open>
  C5. Bids on one auction are to be decided one at a time, so that the committed prices
  go strictly up. The handler holds nothing across its awaits: with the bids of 120 and
  110 taking turns, both handlers are past the lookup with the same document (price
  100) before either has saved, both pass the price test, and 110 is committed and
  broadcast after 120. The auction ends at price 110 with bob as highest bidder.
\<close>

theorem interleaved_bids_commit_lower_price:
  "w_tasks (run_schedule (take 2 race_schedule) race_world)
     = [Found alice \<lparr>auctionId = ''a1'', bidAmount = 120\<rparr> (Some auction0),
        Found bob \<lparr>auctionId = ''a1'', bidAmount = 110\<rparr> (Some auction0)]
   \<and> prices_for ''a1'' (w_log (run_schedule race_schedule race_world)) = [120, 110]
   \<and> \<not> sorted_wrt (<) (prices_for ''a1'' (w_log (run_schedule race_schedule race_world)))
   \<and> map amount (bids (w_state (run_schedule race_schedule race_world))) = [120, 110]
   \<and> map_option currentPrice
        (auctions (w_state (run_schedule race_schedule race_world)) ''a1'') = Some 110
   \<and> map_option highestBidder
        (auctions (w_state (run_schedule race_schedule race_world)) ''a1'') = Some (Some ''bob'')"
  by (simp add: race_schedule_def race_world_def resume_def state0_def auction0_def
      alice_def bob_def prices_for_def new_bid_of_def room_name_def bid_error_def)

section \<open>The update endpoint\<close>

text \<open>
  C9. Whatever the request, the update endpoint leaves every stored auction in place
  and changes at most the title, description, category and image of the one it
  addresses: currentPrice, highestBidder, status, startingPrice and endTime of every
  auction are what they were, and the bid collection is untouched.
\<close>

theorem put_auction_changes_listing_fields_only:
  "rel_option (\<lambda>a a'. same_but_listing a a'
        \<and> currentPrice a' = currentPrice a \<and> highestBidder a' = highestBidder a
        \<and> status a' = status a \<and> startingPrice a' = startingPrice a
        \<and> endTime a' = endTime a)
     (auctions s k) (auctions (fst (put_auction f u aid b s)) k)
   \<and> bids (fst (put_auction f u aid b s)) = bids s"
  by (auto simp: put_auction_def same_but_listing_def Let_def option.rel_sel
      split: option.splits)

text \<open>
  An update by the seller that sends a new title and tries to send a price: the title
  is stored trimmed, the price is not part of what the endpoint reads.
\<close>

theorem put_auction_changes_listing_fields_only_witness:
  "map_option title
     (auctions (fst (put_auction \<lparr>upd_find_err = None, upd_save_err = None, upd_refetch_err = None\<rparr>
        \<lparr>user_id = ''seller1'', user_role = ''user''\<rparr> ''a1''
        \<lparr>body_title = Some '' Desk lamp'', body_description = None,
          body_category = None, body_image = None\<rparr> state0)) ''a1'') = Some ''Desk lamp''
   \<and> map_option currentPrice
     (auctions (fst (put_auction \<lparr>upd_find_err = None, upd_save_err = None, upd_refetch_err = None\<rparr>
        \<lparr>user_id = ''seller1'', user_role = ''user''\<rparr> ''a1''
        \<lparr>body_title = Some '' Desk lamp'', body_description = None,
          body_category = None, body_image = None\<rparr> state0)) ''a1'') = Some 100"
proof -
  have t: "map_option title
     (auctions (fst (put_auction \<lparr>upd_find_err = None, upd_save_err = None, upd_refetch_err = None\<rparr>
        \<lparr>user_id = ''seller1'', user_role = ''user''\<rparr> ''a1''
        \<lparr>body_title = Some '' Desk lamp'', body_description = None,
          body_category = None, body_image = None\<rparr> state0)) ''a1'') = Some ''Desk lamp''"
    by (simp add: put_auction_def state0_def auction0_def str_trim_def whitespace_codes_def Let_def)
  have a: "auctions state0 ''a1'' = Some auction0" by (simp add: state0_def)
  from put_auction_changes_listing_fields_only
         [where s = state0 and k = "''a1''" and aid = "''a1''"
            and f = "\<lparr>upd_find_err = None, upd_save_err = None, upd_refetch_err = None\<rparr>"
            and u = "\<lparr>user_id = ''seller1'', user_role = ''user''\<rparr>"
            and b = "\<lparr>body_title = Some '' Desk lamp'', body_description = None,
                      body_category = None, body_image = None\<rparr>"] a
  have "map_option currentPrice
     (auctions (fst (put_auction \<lparr>upd_find_err = None, upd_save_err = None, upd_refetch_err = None\<rparr>
        \<lparr>user_id = ''seller1'', user_role = ''user''\<rparr> ''a1''
        \<lparr>body_title = Some '' Desk lamp'', body_description = None,
          body_category = None, body_image = None\<rparr> state0)) ''a1'') = Some (currentPrice auction0)"
    by (auto simp: option.rel_sel)
  with t show ?thesis by (simp add: auction0_def)
qed

end
